theory Spec2Isabelle
  imports Complex_Main "HOL-Library.Sublist"
begin

section \<open>Data model\<close>

text \<open>
  The retrieval half of the repository (\<^verbatim>\<open>rag_strategies/retrieval\<close>) works on
  Python dictionaries read from a MongoDB store. A dictionary whose keys the code reads with
  \<^verbatim>\<open>d[k]\<close> or \<^verbatim>\<open>d.get(k, default)\<close> is a record here; a key read with
  \<^verbatim>\<open>.get\<close> is an optional field, and a key the code may find missing with
  \<^verbatim>\<open>d[k]\<close> is optional too, its absence raising \<^verbatim>\<open>KeyError\<close>.
  Python floats are modelled as reals, Python strings as lists of 8-bit characters read as
  the code points U+0000 to U+00FF.
\<close>

text \<open>
  A document identifier. The ingestion code (\<^verbatim>\<open>processor.py\<close>) inserts summaries and
  chunks without an \<^verbatim>\<open>_id\<close>, so the store assigns each an \<^verbatim>\<open>ObjectId\<close>; a
  BSON string is a different value even when it spells the same hexadecimal digits.
\<close>

datatype bson_id = ObjectId string | StrId string

text \<open>\<^verbatim>\<open>str(c['_id'])\<close>: the hexadecimal digits of an ObjectId, a string as it is.\<close>

fun py_str :: "bson_id \<Rightarrow> string" where
  "py_str (ObjectId h) = h"
| "py_str (StrId s) = s"

datatype mval = MStr string | MNat nat | MReal real | MDict "(string \<times> mval) list"

type_synonym metadata = "string \<Rightarrow> mval option"

type_synonym embedding = "real list"

text \<open>
  A chunk as the chunk collection returns it after \<^verbatim>\<open>$project\<close>, and as
  \<^verbatim>\<open>_process_chunks\<close> rebuilds it (then without \<^verbatim>\<open>_id\<close>). The content is read with
  \<^verbatim>\<open>chunk['content']\<close> and is a string in every stored chunk.
\<close>

record chunk =
  chunk_id :: "bson_id option"
  content :: string
  metadata :: "metadata option"
  root_id :: "string option"
  summary_id :: "bson_id option"
  score :: "real option"

text \<open>
  A summary as \<^verbatim>\<open>_search_summaries\<close> returns it. The fields \<^verbatim>\<open>page_title\<close> and
  \<^verbatim>\<open>source_documents\<close> are only logged and are left out.
\<close>

record summary =
  sum_id :: bson_id
  sum_root_id :: "string option"
  summary_text :: "string option"
  sum_metadata :: "metadata option"
  sum_score :: "real option"

text \<open>
  The dictionary \<^verbatim>\<open>search\<close> returns and \<^verbatim>\<open>generate_response\<close> reads. The synthesizer
  reads every key with \<^verbatim>\<open>.get\<close> first, so each may be absent.
\<close>

record search_result =
  sr_chunks :: "chunk list option"
  sr_summaries :: "summary list option"
  sr_metadata :: "metadata option"

text \<open>
  A citation dictionary \<^verbatim>\<open>{"content", "metadata": {"document_path", "metadata",
  "confidence"}}\<close>, the inner dictionary flattened into the record.
\<close>

record citation =
  cit_content :: string
  document_path :: mval
  cit_metadata :: metadata
  cit_confidence :: real

record response =
  answer :: string
  citations :: "citation list"
  resp_metadata :: metadata
  confidence :: real

text \<open>
  Exceptions are values. \<^verbatim>\<open>ServiceError\<close> stands for whatever an external call (embedding,
  store, completion) raises, with its message.
\<close>

datatype error = KeyError string | ServiceError string

text \<open>\<^verbatim>\<open>str(e)\<close>: a \<^verbatim>\<open>KeyError\<close> prints its key in quotes.\<close>

fun err_str :: "error \<Rightarrow> string" where
  "err_str (KeyError k) = CHR 0x27 # k @ [CHR 0x27]"
| "err_str (ServiceError m) = m"

text \<open>
  The prompts are fixed templates around the query and the evidence. A prompt is represented
  by its template and the values interpolated into it.
\<close>

datatype context_part = SummaryPart string | DetailPart string

datatype prompt =
  ComprehensivePrompt string "context_part list"
| ChunksPrompt string "(nat \<times> string) list"

text \<open>
  The \<^verbatim>\<open>$match\<close> stage of a chunk pipeline: the anchored search matches on
  \<^verbatim>\<open>summary_id\<close> or \<^verbatim>\<open>root_id\<close>, the direct search excludes a list of strings from
  \<^verbatim>\<open>_id\<close>.
\<close>

datatype chunk_match = MatchAnchored "bson_id list" "string list" | MatchNotIn "string list"

text \<open>
  Every call that leaves the process, in the order issued: the query embedded, a summary
  search with its \<open>k\<close>, a chunk search with its \<open>k\<close>, \<^verbatim>\<open>$match\<close> and \<^verbatim>\<open>$limit\<close>, and a
  completion request.
\<close>

datatype call =
  EmbedQuery string
| SummarySearch embedding nat
| ChunkSearch embedding nat "chunk_match option" "nat option"
| Completion prompt

datatype clock_read = SynthesizerRead | PipelineRead

text \<open>
  The external collaborators: the embedding service, the \<^verbatim>\<open>$search\<close> (kNN) stage of the
  two collections, the completion service and the clock. Each call may raise.
\<close>

record env =
  embed_query :: "string \<Rightarrow> error + embedding"
  knn_summaries :: "embedding \<Rightarrow> nat \<Rightarrow> error + summary list"
  knn_chunks :: "embedding \<Rightarrow> nat \<Rightarrow> error + chunk list"
  ainvoke :: "prompt \<Rightarrow> error + string"
  utcnow :: "clock_read \<Rightarrow> string"

section \<open>Evidence Assembler (\<^verbatim>\<open>query_processor.py\<close>, lines 273 to 300)\<close>

subsection \<open>\<^verbatim>\<open>_normalize_content\<close>\<close>

text \<open>
  The white space of \<^verbatim>\<open>str.split()\<close> and the upper-case letters of \<^verbatim>\<open>str.lower()\<close>
  among the code points below 256.
\<close>

definition is_space :: "char \<Rightarrow> bool" where
  "is_space c =
     (let n = (of_char c :: nat)
      in (9 \<le> n \<and> n \<le> 13) \<or> (28 \<le> n \<and> n \<le> 32) \<or> n = 133 \<or> n = 160)"

definition lower_char :: "char \<Rightarrow> char" where
  "lower_char c =
     (let n = (of_char c :: nat)
      in if 65 \<le> n \<and> n \<le> 90 then char_of (n + 32)
         else if 192 \<le> n \<and> n \<le> 214 then char_of (n + 32)
         else if 216 \<le> n \<and> n \<le> 222 then char_of (n + 32)
         else c)"

definition py_lower :: "string \<Rightarrow> string" where
  "py_lower s = map lower_char s"

text \<open>
  \<^verbatim>\<open>s.split()\<close>: the maximal runs of characters that are not white space. The first
  argument is the word read so far.
\<close>

fun split_from :: "string \<Rightarrow> string \<Rightarrow> string list" where
  "split_from w [] = (if w = [] then [] else [w])"
| "split_from w (c # cs) =
     (if is_space c then (if w = [] then split_from [] cs else w # split_from [] cs)
      else split_from (w @ [c]) cs)"

definition py_split :: "string \<Rightarrow> string list" where
  "py_split s = split_from [] s"

fun py_join :: "string \<Rightarrow> string list \<Rightarrow> string" where
  "py_join sep [] = []"
| "py_join sep [w] = w"
| "py_join sep (w # v # ws) = w @ sep @ py_join sep (v # ws)"

text \<open>\<^verbatim>\<open>' '.join(content.lower().split())\<close>\<close>

definition normalize_content :: "string \<Rightarrow> string" where
  "normalize_content s = py_join '' '' (py_split (py_lower s))"

subsection \<open>\<^verbatim>\<open>_process_chunks\<close>\<close>

text \<open>\<^verbatim>\<open>chunk.get('score', 0.7)\<close> and \<^verbatim>\<open>chunk.get('metadata', {})\<close>\<close>

definition get_score :: "chunk \<Rightarrow> real" where
  "get_score c = (case score c of None \<Rightarrow> 0.7 | Some s \<Rightarrow> s)"

definition get_metadata :: "chunk \<Rightarrow> metadata" where
  "get_metadata c = (case metadata c of None \<Rightarrow> Map.empty | Some m \<Rightarrow> m)"

text \<open>The dictionary built for a chunk that is kept (lines 284 to 290): it has no \<^verbatim>\<open>_id\<close>.\<close>

definition processed_chunk :: "chunk \<Rightarrow> chunk" where
  "processed_chunk c =
     \<lparr>chunk_id = None, content = content c, metadata = Some (get_metadata c),
      root_id = root_id c, summary_id = summary_id c, score = Some (get_score c)\<rparr>"

text \<open>
  The loop of lines 278 to 292, with \<^verbatim>\<open>seen_content\<close> and \<^verbatim>\<open>processed_chunks\<close> as
  accumulators.
\<close>

fun process_chunks_loop :: "chunk list \<Rightarrow> string set \<Rightarrow> chunk list \<Rightarrow> chunk list" where
  "process_chunks_loop [] seen_content processed_chunks = processed_chunks"
| "process_chunks_loop (c # cs) seen_content processed_chunks =
     (let normalized_content = normalize_content (content c)
      in if normalized_content \<in> seen_content
         then process_chunks_loop cs seen_content processed_chunks
         else process_chunks_loop cs (insert normalized_content seen_content)
                (processed_chunks @ [processed_chunk c]))"

text \<open>
  \<^verbatim>\<open>processed_chunks.sort(key=lambda x: x['score'], reverse=True)\<close>: Python's sort is
  stable, also with \<^verbatim>\<open>reverse=True\<close>, which sorts as if each comparison were reversed.
  Every processed chunk has a score, so the key \<^verbatim>\<open>x['score']\<close> is \<open>get_score\<close>.
\<close>

definition sort_by_score_desc :: "chunk list \<Rightarrow> chunk list" where
  "sort_by_score_desc cs = sort_key (\<lambda>x. - get_score x) cs"

definition process_chunks :: "chunk list \<Rightarrow> chunk list" where
  "process_chunks chunks = sort_by_score_desc (process_chunks_loop chunks {} [])"

text \<open>The deduplication key of a chunk (line 279).\<close>

abbreviation (input) nkey :: "chunk \<Rightarrow> string" where
  "nkey c \<equiv> normalize_content (content c)"

text \<open>
  For the proofs: the chunks of a list whose normalized content is neither in \<open>seen\<close> nor
  that of an earlier chunk of the list.
\<close>

fun first_seen :: "string set \<Rightarrow> chunk list \<Rightarrow> chunk list" where
  "first_seen seen [] = []"
| "first_seen seen (c # cs) =
     (if normalize_content (content c) \<in> seen then first_seen seen cs
      else c # first_seen (insert (normalize_content (content c)) seen) cs)"

section \<open>Search Orchestrator (\<^verbatim>\<open>query_processor.py\<close>, lines 38 to 271)\<close>

text \<open>
  The stages after \<^verbatim>\<open>$search\<close> run inside the store on what the kNN stage returns:
  \<^verbatim>\<open>$in\<close> and \<^verbatim>\<open>$nin\<close> compare BSON values, a missing field matches no
  \<^verbatim>\<open>$in\<close>, and the strings of \<^verbatim>\<open>existing_chunk_ids\<close> are BSON strings.
\<close>

fun matches :: "chunk_match \<Rightarrow> chunk \<Rightarrow> bool" where
  "matches (MatchAnchored summary_ids root_ids) c =
     ((case summary_id c of None \<Rightarrow> False | Some i \<Rightarrow> i \<in> set summary_ids) \<or>
      (case root_id c of None \<Rightarrow> False | Some r \<Rightarrow> r \<in> set root_ids))"
| "matches (MatchNotIn existing_chunk_ids) c =
     (case chunk_id c of None \<Rightarrow> True | Some i \<Rightarrow> i \<notin> set (map StrId existing_chunk_ids))"

text \<open>
  \<^verbatim>\<open>chunks_collection.aggregate(pipeline).to_list(None)\<close> for a pipeline
  \<^verbatim>\<open>$search\<close> (kNN with \<open>k\<close>), an optional \<^verbatim>\<open>$match\<close>, \<^verbatim>\<open>$project\<close>, an optional
  \<^verbatim>\<open>$limit\<close>. The projection keeps the fields of the record.
\<close>

definition aggregate_chunks ::
  "env \<Rightarrow> embedding \<Rightarrow> nat \<Rightarrow> chunk_match option \<Rightarrow> nat option \<Rightarrow> error + chunk list" where
  "aggregate_chunks e v k m limit =
     (case knn_chunks e v k of
        Inl err \<Rightarrow> Inl err
      | Inr docs \<Rightarrow>
          (let matched = (case m of None \<Rightarrow> docs | Some f \<Rightarrow> filter (matches f) docs)
           in Inr (case limit of None \<Rightarrow> matched | Some n \<Rightarrow> take n matched)))"

text \<open>\<^verbatim>\<open>_search_summaries\<close> (lines 80 to 120): a failure is logged and gives \<^verbatim>\<open>[]\<close>.\<close>

definition search_summaries :: "env \<Rightarrow> embedding \<Rightarrow> summary list \<times> call list" where
  "search_summaries e v =
     ((case knn_summaries e v 5 of Inl err \<Rightarrow> [] | Inr results \<Rightarrow> results),
      [SummarySearch v 5])"

text \<open>The two pipelines of \<^verbatim>\<open>_get_chunks_from_summaries\<close> and their calls.\<close>

definition truthy_root_ids :: "summary list \<Rightarrow> string list" where
  "truthy_root_ids summaries =
     concat (map (\<lambda>s. case sum_root_id s of None \<Rightarrow> [] | Some r \<Rightarrow> if r = [] then [] else [r])
       summaries)"

definition anchored_call :: "summary list \<Rightarrow> embedding \<Rightarrow> call" where
  "anchored_call summaries v =
     ChunkSearch v 10 (Some (MatchAnchored (map sum_id summaries) (truthy_root_ids summaries)))
       (Some 10)"

definition fallback_call :: "embedding \<Rightarrow> call" where
  "fallback_call v = ChunkSearch v 5 None None"

text \<open>
  \<^verbatim>\<open>_get_chunks_from_summaries\<close> (lines 122 to 217). One \<^verbatim>\<open>try\<close> encloses both
  searches: a failure of either is logged and gives \<^verbatim>\<open>[]\<close>.
\<close>

definition get_chunks_from_summaries ::
  "env \<Rightarrow> summary list \<Rightarrow> embedding \<Rightarrow> chunk list \<times> call list" where
  "get_chunks_from_summaries e summaries v =
     (if summaries = [] then ([], [])
      else
        (case aggregate_chunks e v 10
                (Some (MatchAnchored (map sum_id summaries) (truthy_root_ids summaries))) (Some 10) of
           Inl err \<Rightarrow> ([], [anchored_call summaries v])
         | Inr results \<Rightarrow>
             if results = [] then
               (case aggregate_chunks e v 5 None None of
                  Inl err \<Rightarrow> ([], [anchored_call summaries v, fallback_call v])
                | Inr results' \<Rightarrow> (results', [anchored_call summaries v, fallback_call v]))
             else (results, [anchored_call summaries v])))"

definition direct_call :: "embedding \<Rightarrow> string list \<Rightarrow> call" where
  "direct_call v existing_chunk_ids =
     ChunkSearch v 10 (Some (MatchNotIn existing_chunk_ids)) (Some 5)"

text \<open>\<^verbatim>\<open>_direct_chunk_search\<close> (lines 219 to 271).\<close>

definition direct_chunk_search ::
  "env \<Rightarrow> embedding \<Rightarrow> string list \<Rightarrow> chunk list \<times> call list" where
  "direct_chunk_search e v existing_chunk_ids =
     ((case aggregate_chunks e v 10 (Some (MatchNotIn existing_chunk_ids)) (Some 5) of
         Inl err \<Rightarrow> []
       | Inr results \<Rightarrow> results),
      [direct_call v existing_chunk_ids])"

text \<open>\<^verbatim>\<open>[str(c['_id']) for c in chunks]\<close>: a chunk without \<^verbatim>\<open>_id\<close> raises.\<close>

fun existing_ids :: "chunk list \<Rightarrow> error + string list" where
  "existing_ids [] = Inr []"
| "existing_ids (c # cs) =
     (case chunk_id c of
        None \<Rightarrow> Inl (KeyError ''_id'')
      | Some i \<Rightarrow> (case existing_ids cs of Inl err \<Rightarrow> Inl err | Inr ids \<Rightarrow> Inr (py_str i # ids)))"

text \<open>
  Lines 49 to 62 of \<^verbatim>\<open>search\<close>: the chunk evidence handed to \<^verbatim>\<open>_process_chunks\<close>, and
  the store calls made for it.
\<close>

definition collect_chunks ::
  "env \<Rightarrow> summary list \<Rightarrow> embedding \<Rightarrow> (error + chunk list) \<times> call list" where
  "collect_chunks e relevant_summaries v =
     (let (chunks, calls) = get_chunks_from_summaries e relevant_summaries v
      in if length chunks < 3 then
           (case existing_ids chunks of
              Inl err \<Rightarrow> (Inl err, calls)
            | Inr ids \<Rightarrow>
                (let (additional_chunks, calls') = direct_chunk_search e v ids
                 in (Inr (chunks @ additional_chunks), calls @ calls')))
         else (Inr chunks, calls))"

definition search_metadata :: "chunk list \<Rightarrow> summary list \<Rightarrow> metadata" where
  "search_metadata processed_chunks relevant_summaries =
     [''total_chunks'' \<mapsto> MNat (length processed_chunks),
      ''summary_count'' \<mapsto> MNat (length relevant_summaries),
      ''search_type'' \<mapsto> MStr ''hybrid'']"

text \<open>\<^verbatim>\<open>search\<close> (lines 38 to 78): whatever is raised inside is logged and raised again.\<close>

definition search :: "env \<Rightarrow> string \<Rightarrow> (error + search_result) \<times> call list" where
  "search e query =
     (case embed_query e query of
        Inl err \<Rightarrow> (Inl err, [EmbedQuery query])
      | Inr v \<Rightarrow>
          (let (relevant_summaries, calls1) = search_summaries e v;
               (chunks, calls2) = collect_chunks e relevant_summaries v
           in (case chunks of
                 Inl err \<Rightarrow> (Inl err, EmbedQuery query # calls1 @ calls2)
               | Inr cs \<Rightarrow>
                   (Inr \<lparr>sr_chunks = Some (process_chunks cs),
                         sr_summaries = Some relevant_summaries,
                         sr_metadata =
                           Some (search_metadata (process_chunks cs) relevant_summaries)\<rparr>,
                    EmbedQuery query # calls1 @ calls2))))"

section \<open>Response Synthesizer (\<^verbatim>\<open>response_generator.py\<close>)\<close>

text \<open>\<^verbatim>\<open>_create_chunk_citations\<close> (lines 239 to 251).\<close>

definition chunk_citation :: "chunk \<Rightarrow> citation" where
  "chunk_citation c =
     \<lparr>cit_content = content c,
      document_path =
        (case get_metadata c ''component_path'' of None \<Rightarrow> MStr [] | Some p \<Rightarrow> p),
      cit_metadata = get_metadata c,
      cit_confidence = get_score c\<rparr>"

definition create_chunk_citations :: "chunk list \<Rightarrow> citation list" where
  "create_chunk_citations chunks = map chunk_citation chunks"

text \<open>
  \<^verbatim>\<open>_create_citations\<close> (lines 214 to 237): one dictionary appended for each summary, then
  the chunk citations.
\<close>

definition summary_citation :: "summary \<Rightarrow> citation" where
  "summary_citation s =
     \<lparr>cit_content = (case summary_text s of None \<Rightarrow> [] | Some t \<Rightarrow> t),
      document_path = MStr ''summary'',
      cit_metadata = (case sum_metadata s of None \<Rightarrow> Map.empty | Some m \<Rightarrow> m),
      cit_confidence = 0.9\<rparr>"

definition create_citations :: "summary list \<Rightarrow> chunk list \<Rightarrow> citation list" where
  "create_citations summaries chunks =
     foldl (\<lambda>cits s. cits @ [summary_citation s]) [] summaries @ create_chunk_citations chunks"

text \<open>\<^verbatim>\<open>_calculate_confidence\<close> (lines 253 to 273).\<close>

definition calculate_confidence :: "citation list \<Rightarrow> summary list \<Rightarrow> real" where
  "calculate_confidence cits summaries =
     (if cits = [] then 0
      else
        (let scores = (if summaries = [] then [] else [0.9]);
             citation_scores = map cit_confidence cits;
             scores' =
               (if citation_scores = [] then scores
                else scores @ [sum_list citation_scores / real (length citation_scores)])
         in min 0.95 (sum_list scores' / real (length scores'))))"

text \<open>\<^verbatim>\<open>_calculate_chunk_confidence\<close> (lines 275 to 281).\<close>

definition calculate_chunk_confidence :: "citation list \<Rightarrow> real" where
  "calculate_chunk_confidence cits =
     (if cits = [] then 0
      else (let scores = map cit_confidence cits
            in min 0.95 (sum_list scores / real (length scores))))"

text \<open>
  \<^verbatim>\<open>_create_comprehensive_context\<close> and \<^verbatim>\<open>_format_chunks_for_prompt\<close>: the texts
  interpolated into the two templates, in order; the chunks numbered from 1.
\<close>

definition create_comprehensive_context :: "summary list \<Rightarrow> chunk list \<Rightarrow> context_part list" where
  "create_comprehensive_context summaries chunks =
     map (\<lambda>s. SummaryPart (case summary_text s of None \<Rightarrow> [] | Some t \<Rightarrow> t)) summaries @
     map (\<lambda>c. DetailPart (content c)) chunks"

definition format_chunks_for_prompt :: "chunk list \<Rightarrow> (nat \<times> string) list" where
  "format_chunks_for_prompt chunks = zip [1 ..< Suc (length chunks)] (map content chunks)"

text \<open>
  \<^verbatim>\<open>_generate_comprehensive_response\<close> (lines 74 to 132): \<^verbatim>\<open>search_result['summaries']\<close>
  and \<^verbatim>\<open>search_result['chunks']\<close> raise on a missing key; whatever is raised is raised
  again.
\<close>

definition generate_comprehensive_response ::
  "env \<Rightarrow> string \<Rightarrow> search_result \<Rightarrow> (error + response) \<times> call list" where
  "generate_comprehensive_response e query sr =
     (case sr_summaries sr of
        None \<Rightarrow> (Inl (KeyError ''summaries''), [])
      | Some summaries \<Rightarrow>
          (case sr_chunks sr of
             None \<Rightarrow> (Inl (KeyError ''chunks''), [])
           | Some chunks \<Rightarrow>
               (let p = ComprehensivePrompt query (create_comprehensive_context summaries chunks)
                in case ainvoke e p of
                     Inl err \<Rightarrow> (Inl err, [Completion p])
                   | Inr text \<Rightarrow>
                       (Inr \<lparr>answer = text,
                             citations = create_citations summaries chunks,
                             resp_metadata =
                               [''sources_used'' \<mapsto>
                                  MDict [(''summaries'', MNat (length summaries)),
                                         (''chunks'', MNat (length chunks))]],
                             confidence =
                               calculate_confidence (create_citations summaries chunks) summaries\<rparr>,
                        [Completion p]))))"

text \<open>\<^verbatim>\<open>_generate_chunks_response\<close> (lines 134 to 188).\<close>

definition generate_chunks_response ::
  "env \<Rightarrow> string \<Rightarrow> search_result \<Rightarrow> (error + response) \<times> call list" where
  "generate_chunks_response e query sr =
     (case sr_chunks sr of
        None \<Rightarrow> (Inl (KeyError ''chunks''), [])
      | Some chunks \<Rightarrow>
          (let p = ChunksPrompt query (format_chunks_for_prompt chunks)
           in case ainvoke e p of
                Inl err \<Rightarrow> (Inl err, [Completion p])
              | Inr text \<Rightarrow>
                  (Inr \<lparr>answer = text,
                        citations = create_chunk_citations chunks,
                        resp_metadata =
                          [''sources_used'' \<mapsto> MDict [(''chunks'', MNat (length chunks))]],
                        confidence =
                          calculate_chunk_confidence (create_chunk_citations chunks)\<rparr>,
                   [Completion p])))"

text \<open>\<^verbatim>\<open>_create_no_content_response\<close> and \<^verbatim>\<open>_create_error_response\<close> (lines 295 to 316).\<close>

definition create_no_content_response :: response where
  "create_no_content_response =
     \<lparr>answer =
        ''I apologize, but I couldn't find relevant information to answer your question accurately.'',
      citations = [],
      resp_metadata = [''error'' \<mapsto> MStr ''No relevant content found''],
      confidence = 0\<rparr>"

definition create_error_response :: "env \<Rightarrow> string \<Rightarrow> response" where
  "create_error_response e err =
     \<lparr>answer = ''I apologize, but I encountered an error while processing your question.'',
      citations = [],
      resp_metadata =
        [''error'' \<mapsto> MStr err, ''error_time'' \<mapsto> MStr (utcnow e SynthesizerRead)],
      confidence = 0\<rparr>"

text \<open>
  \<^verbatim>\<open>generate_response\<close> (lines 36 to 72). \<^verbatim>\<open>not search_result.get(k)\<close> holds for a
  missing key and for an empty list. The caller's metadata is merged last.
\<close>

definition has_chunks :: "search_result \<Rightarrow> bool" where
  "has_chunks sr = (case sr_chunks sr of None \<Rightarrow> False | Some cs \<Rightarrow> cs \<noteq> [])"

definition has_summaries :: "search_result \<Rightarrow> bool" where
  "has_summaries sr = (case sr_summaries sr of None \<Rightarrow> False | Some ss \<Rightarrow> ss \<noteq> [])"

definition search_type_of :: "search_result \<Rightarrow> mval" where
  "search_type_of sr =
     (case (case sr_metadata sr of None \<Rightarrow> Map.empty | Some m \<Rightarrow> m) ''search_type'' of
        None \<Rightarrow> MStr ''unknown''
      | Some t \<Rightarrow> t)"

definition generate_response ::
  "env \<Rightarrow> string \<Rightarrow> search_result \<Rightarrow> metadata option \<Rightarrow> response \<times> call list" where
  "generate_response e query sr md =
     (if has_chunks sr \<or> has_summaries sr then
        (let (r, calls) =
               (if has_summaries sr then generate_comprehensive_response e query sr
                else generate_chunks_response e query sr)
         in case r of
              Inl err \<Rightarrow> (create_error_response e (err_str err), calls)
            | Inr resp \<Rightarrow>
                (resp\<lparr>resp_metadata :=
                   (resp_metadata resp ++
                    [''processed_at'' \<mapsto> MStr (utcnow e SynthesizerRead),
                     ''search_type'' \<mapsto> search_type_of sr]) ++
                   (case md of None \<Rightarrow> Map.empty | Some m \<Rightarrow> m)\<rparr>,
                 calls))
      else (create_no_content_response, []))"

section \<open>Query Pipeline (\<^verbatim>\<open>rag_system.py\<close>, lines 27 to 63)\<close>

text \<open>The dictionary returned by the \<^verbatim>\<open>except\<close> branch of \<^verbatim>\<open>process_query\<close>.\<close>

definition pipeline_error_response :: "string \<Rightarrow> response" where
  "pipeline_error_response err =
     \<lparr>answer = ''I apologize, but I encountered an error processing your question.'',
      citations = [],
      resp_metadata = [''error'' \<mapsto> MStr err],
      confidence = 0\<rparr>"

definition sources_used :: "search_result \<Rightarrow> mval" where
  "sources_used sr =
     MDict [(''summaries'', MNat (length (case sr_summaries sr of None \<Rightarrow> [] | Some ss \<Rightarrow> ss))),
            (''chunks'', MNat (length (case sr_chunks sr of None \<Rightarrow> [] | Some cs \<Rightarrow> cs)))]"

text \<open>
  \<^verbatim>\<open>process_query\<close>: only \<^verbatim>\<open>search\<close> can raise inside the \<^verbatim>\<open>try\<close>, since
  \<^verbatim>\<open>generate_response\<close> catches what its branches raise.
\<close>

definition process_query :: "env \<Rightarrow> string \<Rightarrow> metadata option \<Rightarrow> response \<times> call list" where
  "process_query e query md =
     (case search e query of
        (Inl err, calls) \<Rightarrow> (pipeline_error_response (err_str err), calls)
      | (Inr search_results, calls) \<Rightarrow>
          (let (resp, calls') = generate_response e query search_results md
           in (resp\<lparr>resp_metadata :=
                 resp_metadata resp ++
                 [''processed_at'' \<mapsto> MStr (utcnow e PipelineRead),
                  ''sources_used'' \<mapsto> sources_used search_results]\<rparr>,
               calls @ calls')))"

section \<open>The confidence aggregation as the specification words it\<close>

definition mean :: "real list \<Rightarrow> real" where
  "mean xs = sum_list xs / real (length xs)"

text \<open>
  Chunks-only branch: the mean of all citation confidences, capped at 0.95; zero citations
  give 0.0.
\<close>

definition spec_chunks_only_confidence :: "citation list \<Rightarrow> real" where
  "spec_chunks_only_confidence cits =
     (if cits = [] then 0 else min 0.95 (mean (map cit_confidence cits)))"

text \<open>
  Comprehensive branch: a list of component scores, 0.9 if any summary is present and the
  mean of all citation confidences if any citation exists; the confidence is the mean of
  that list, capped at 0.95.
\<close>

definition spec_components :: "citation list \<Rightarrow> summary list \<Rightarrow> real list" where
  "spec_components cits summaries =
     (if summaries = [] then [] else [0.9]) @
     (if cits = [] then [] else [mean (map cit_confidence cits)])"

definition spec_comprehensive_confidence :: "citation list \<Rightarrow> summary list \<Rightarrow> real" where
  "spec_comprehensive_confidence cits summaries = min 0.95 (mean (spec_components cits summaries))"

section \<open>Example inputs\<close>

text \<open>Three chunks for the examples: the third repeats the first up to case and spacing.\<close>

definition chunk_A :: chunk where
  "chunk_A = \<lparr>chunk_id = Some (ObjectId ''a1''), content = ''Hi  There'', metadata = None,
     root_id = None, summary_id = None, score = None\<rparr>"

definition chunk_B :: chunk where
  "chunk_B = \<lparr>chunk_id = Some (ObjectId ''b2''), content = ''other'', metadata = None,
     root_id = None, summary_id = None, score = Some 0.9\<rparr>"

definition chunk_A2 :: chunk where
  "chunk_A2 = \<lparr>chunk_id = Some (ObjectId ''c3''), content = ''hi there'', metadata = None,
     root_id = None, summary_id = None, score = Some 0.95\<rparr>"

text \<open>A summary, a chunk anchored to it, and collaborators that answer every call.\<close>

definition summary_S :: summary where
  "summary_S = \<lparr>sum_id = ObjectId ''s1'', sum_root_id = Some ''r1'',
     summary_text = Some ''Repairs'', sum_metadata = None, sum_score = Some 0.8\<rparr>"

definition chunk_C :: chunk where
  "chunk_C = \<lparr>chunk_id = Some (ObjectId ''c1''), content = ''repairs come first'',
     metadata = Some [''component_path'' \<mapsto> MStr ''r1_doc''], root_id = Some ''r1'',
     summary_id = Some (ObjectId ''s1''), score = Some 0.8\<rparr>"

definition env_ok :: env where
  "env_ok = \<lparr>embed_query = (\<lambda>q. Inr [1]),
     knn_summaries = (\<lambda>v k. Inr [summary_S]),
     knn_chunks = (\<lambda>v k. Inr [chunk_C]),
     ainvoke = (\<lambda>p. Inr ''An answer''),
     utcnow = (\<lambda>r. case r of SynthesizerRead \<Rightarrow> ''t0'' | PipelineRead \<Rightarrow> ''t1'')\<rparr>"

text \<open>Chunks-only evidence whose single chunk has score 0, and one with a negative score.\<close>

definition sr_zero_score :: search_result where
  "sr_zero_score = \<lparr>sr_chunks = Some [chunk_C\<lparr>score := Some 0\<rparr>], sr_summaries = Some [],
     sr_metadata = None\<rparr>"

definition sr_negative_score :: search_result where
  "sr_negative_score = \<lparr>sr_chunks = Some [chunk_C\<lparr>score := Some (- 1)\<rparr>], sr_summaries = Some [],
     sr_metadata = None\<rparr>"

text \<open>The chunks of a search result, none when the key is missing.\<close>

definition chunks_of :: "search_result \<Rightarrow> chunk list" where
  "chunks_of sr = (case sr_chunks sr of None \<Rightarrow> [] | Some cs \<Rightarrow> cs)"

section \<open>Properties of the Evidence Assembler\<close>

subsection \<open>Normalization\<close>

lemma lower_char_idem: "lower_char (lower_char c) = lower_char c"
  unfolding lower_char_def Let_def by simp

lemma py_lower_idem: "py_lower (py_lower s) = py_lower s"
  by (simp add: py_lower_def lower_char_idem)



lemma split_from_word:
  "\<forall>c \<in> set u. \<not> is_space c \<Longrightarrow> split_from w (u @ s) = split_from (w @ u) s"
  by (induction u arbitrary: w) auto


lemma split_from_chars: "set (concat (split_from w s)) \<subseteq> set w \<union> set s"
  by (induction w s rule: split_from.induct) auto


lemma split_from_no_space:
  "\<forall>c \<in> set w. \<not> is_space c \<Longrightarrow> v \<in> set (split_from w s) \<Longrightarrow>
   v \<noteq> [] \<and> (\<forall>c \<in> set v. \<not> is_space c)"
proof (induction w s rule: split_from.induct)
  case (1 w)
  then show ?case by (simp split: if_splits)
next
  case (2 w c cs)
  show ?case
  proof (cases "is_space c")
    case True
    show ?thesis
    proof (cases "w = []")
      case w: True
      with True "2.prems" have "v \<in> set (split_from [] cs)" by simp
      then show ?thesis by (rule "2.IH"(1) [OF True w, rotated]) simp
    next
      case w: False
      with True "2.prems" have "v = w \<or> v \<in> set (split_from [] cs)"
        by simp
      then show ?thesis
      proof
        assume "v = w" with w "2.prems"(1) show ?thesis by simp
      next
        assume "v \<in> set (split_from [] cs)"
        then show ?thesis by (rule "2.IH"(2) [OF True w, rotated]) simp
      qed
    qed
  next
    case False
    with "2.prems" have "v \<in> set (split_from (w @ [c]) cs)" by simp
    moreover have "\<forall>d \<in> set (w @ [c]). \<not> is_space d"
      using False "2.prems"(1) by simp
    ultimately show ?thesis by (rule "2.IH"(3) [OF False, rotated])
  qed
qed


lemma py_split_words:
  "v \<in> set (py_split s) \<Longrightarrow> v \<noteq> [] \<and> (\<forall>c \<in> set v. \<not> is_space c)"
  unfolding py_split_def using split_from_no_space [of "[]" v s] by simp


lemma space_is_space: "is_space CHR '' ''"
  by (simp add: is_space_def)


lemma split_join:
  "\<forall>v \<in> set ws. v \<noteq> [] \<and> (\<forall>c \<in> set v. \<not> is_space c) \<Longrightarrow>
   split_from [] (py_join '' '' ws) = ws"
proof (induction ws)
  case Nil
  then show ?case by simp
next
  case (Cons w ws)
  have w: "w \<noteq> []" "\<forall>c \<in> set w. \<not> is_space c"
    using Cons.prems by simp_all
  show ?case
  proof (cases ws)
    case Nil
    have "split_from [] (w @ []) = split_from ([] @ w) []"
      using w(2) by (rule split_from_word)
    with w(1) Nil show ?thesis by simp
  next
    case (Cons v vs)
    have "split_from [] (w @ ('' '' @ py_join '' '' ws))
        = split_from ([] @ w) ('' '' @ py_join '' '' ws)"
      using w(2) by (rule split_from_word)
    also have "\<dots> = w # split_from [] (py_join '' '' ws)"
      using w(1) by (simp add: space_is_space)
    also have "\<dots> = w # ws"
      using Cons.IH Cons.prems by simp
    finally show ?thesis using Cons by simp
  qed
qed

lemma py_lower_join:
  "py_lower (py_join sep ws) = py_join (py_lower sep) (map py_lower ws)"
  by (induction sep ws rule: py_join.induct) (simp_all add: py_lower_def)


lemma py_lower_fixed: "\<forall>c \<in> set s. lower_char c = c \<Longrightarrow> py_lower s = s"
  by (simp add: py_lower_def map_idI)


lemma split_lower_fixed:
  assumes "v \<in> set (py_split (py_lower s))"
  shows "py_lower v = v"
proof (rule py_lower_fixed, rule ballI)
  fix c assume "c \<in> set v"
  with assms have "c \<in> set (concat (split_from [] (py_lower s)))"
    by (auto simp: py_split_def)
  with split_from_chars [of "[]" "py_lower s"] have "c \<in> set (py_lower s)"
    by auto
  then show "lower_char c = c"
    by (auto simp: py_lower_def lower_char_idem)
qed


lemma normalize_content_idem:
  "normalize_content (normalize_content s) = normalize_content s"
proof -
  let ?ws = "py_split (py_lower s)"
  have "py_lower (py_join '' '' ?ws) = py_join '' '' (map py_lower ?ws)"
    by (simp add: py_lower_join) (simp add: py_lower_def lower_char_def)
  also have "map py_lower ?ws = ?ws"
    by (rule map_idI) (rule split_lower_fixed)
  finally have "py_split (py_lower (py_join '' '' ?ws)) = ?ws"
    using split_join [of ?ws] py_split_words [of _ "py_lower s"]
    by (simp add: py_split_def)
  then show ?thesis
    by (simp add: normalize_content_def)
qed

subsection \<open>Deduplication and ranking\<close>

lemma processed_chunk_content [simp]: "content (processed_chunk c) = content c"
  by (simp add: processed_chunk_def)

lemma processed_chunk_score [simp]: "get_score (processed_chunk c) = get_score c"
  by (simp add: processed_chunk_def get_score_def)

lemma processed_chunk_idem [simp]: "processed_chunk (processed_chunk c) = processed_chunk c"
  by (simp add: processed_chunk_def get_score_def get_metadata_def)

lemma process_chunks_loop_first_seen:
  "process_chunks_loop cs seen acc = acc @ map processed_chunk (first_seen seen cs)"
  by (induction cs arbitrary: seen acc) (simp_all add: Let_def)

lemma first_seen_keys:
  "set (map nkey (first_seen seen cs)) = nkey ` set cs - seen"
  by (induction cs arbitrary: seen) auto

lemma first_seen_distinct: "distinct (map nkey (first_seen seen cs))"
  by (induction cs arbitrary: seen) (auto simp: first_seen_keys [simplified])

lemma first_seen_subseq: "subseq (first_seen seen cs) cs"
  by (induction cs arbitrary: seen) auto

lemma first_seen_id:
  "distinct (map nkey cs) \<Longrightarrow> nkey ` set cs \<inter> seen = {} \<Longrightarrow> first_seen seen cs = cs"
  by (induction cs arbitrary: seen) auto

lemma first_seen_filter_in:
  "k \<in> seen \<Longrightarrow> filter (\<lambda>d. nkey d = k) (first_seen seen cs) = []"
  by (induction cs arbitrary: seen) auto

lemma first_seen_filter_find:
  "find (\<lambda>d. nkey d = k) cs = Some d \<Longrightarrow> k \<notin> seen \<Longrightarrow>
   filter (\<lambda>d. nkey d = k) (first_seen seen cs) = [d]"
proof (induction cs arbitrary: seen)
  case Nil
  then show ?case by simp
next
  case (Cons c cs)
  show ?case
  proof (cases "nkey c = k")
    case True
    with Cons.prems have "c = d" by simp
    with True Cons.prems(2) show ?thesis
      by (simp add: first_seen_filter_in)
  next
    case False
    with Cons.prems have "find (\<lambda>d. nkey d = k) cs = Some d" by simp
    with False Cons.prems(2) Cons.IH show ?thesis by simp
  qed
qed

lemma process_chunks_eq:
  "process_chunks cs = sort_key (\<lambda>x. - get_score x) (map processed_chunk (first_seen {} cs))"
  by (simp add: process_chunks_def sort_by_score_desc_def process_chunks_loop_first_seen)

lemma nkey_map_processed: "map nkey (map processed_chunk xs) = map nkey xs"
  by simp


lemma distinct_nkey_sort:
  "distinct (map nkey (sort_key f xs)) = distinct (map nkey xs)"
  by (simp add: distinct_map)


lemma process_chunks_distinct: "distinct (map nkey (process_chunks cs))"
  unfolding process_chunks_eq distinct_nkey_sort nkey_map_processed
  by (rule first_seen_distinct)


lemma process_chunks_fixed: "p \<in> set (process_chunks cs) \<Longrightarrow> processed_chunk p = p"
  by (auto simp: process_chunks_eq)


lemma process_chunks_sorted:
  "sorted (map (\<lambda>x. - get_score x) (process_chunks cs))"
  unfolding process_chunks_eq by (rule sorted_sort_key)


lemma process_chunks_idem: "process_chunks (process_chunks cs) = process_chunks cs"
proof -
  let ?S = "process_chunks cs"
  have "first_seen {} ?S = ?S"
    by (rule first_seen_id) (simp_all add: process_chunks_distinct)
  moreover have "map processed_chunk ?S = ?S"
    by (rule map_idI) (rule process_chunks_fixed)
  moreover have "sort_key (\<lambda>x. - get_score x) ?S = ?S"
    by (rule sort_key_id_if_sorted) (rule process_chunks_sorted)
  ultimately show ?thesis
    by (simp add: process_chunks_eq [of ?S])
qed


lemma process_chunks_filter_key:
  "filter (\<lambda>p. nkey p = k) (process_chunks cs) =
   sort_key (\<lambda>x. - get_score x)
     (map processed_chunk (filter (\<lambda>d. nkey d = k) (first_seen {} cs)))"
  by (simp add: process_chunks_eq filter_sort filter_map comp_def)

lemma process_chunks_first:
  assumes "find (\<lambda>d. nkey d = k) cs = Some d"
  shows "filter (\<lambda>p. nkey p = k) (process_chunks cs) = [processed_chunk d]"
proof -
  have "filter (\<lambda>d. nkey d = k) (first_seen {} cs) = [d]"
    using assms by (rule first_seen_filter_find) simp
  then show ?thesis
    by (simp add: process_chunks_filter_key)
qed

lemma process_chunks_ties:
  "filter (\<lambda>p. get_score p = v) (process_chunks cs) =
   filter (\<lambda>p. get_score p = v) (map processed_chunk (first_seen {} cs))"
proof -
  have "filter (\<lambda>p. - get_score p = - v) (process_chunks cs) =
        filter (\<lambda>p. - get_score p = - v) (map processed_chunk (first_seen {} cs))"
    unfolding process_chunks_eq by (rule sort_key_stable)
  then show ?thesis by simp
qed

lemma process_chunks_desc:
  "sorted_wrt (\<lambda>a b. get_score b \<le> get_score a) (process_chunks cs)"
  using process_chunks_sorted [of cs] by (simp add: sorted_map)

lemma normalize_examples:
  "normalize_content ''Hi  There'' = ''hi there''" "normalize_content ''other'' = ''other''"
  "normalize_content ''hi there'' = ''hi there''"
  by code_simp+

lemma nkey_examples:
  "nkey chunk_A = ''hi there''" "nkey chunk_B = ''other''" "nkey chunk_A2 = ''hi there''"
  by (simp_all add: chunk_A_def chunk_B_def chunk_A2_def normalize_examples)

subsection \<open>The claims about the Evidence Assembler\<close>

text \<open>
  C7. Whatever the input list, for each of its chunks the output holds exactly one chunk with
  the same normalized content: the one built from the first chunk of the input with that
  normalized content, with that chunk's content and that chunk's score, 0.7 when it has
  none.
\<close>

theorem process_chunks_keeps_first_occurrence:
  assumes "c \<in> set cs"
  shows "\<exists>d. find (\<lambda>d. nkey d = nkey c) cs = Some d \<and>
             filter (\<lambda>p. nkey p = nkey c) (process_chunks cs) = [processed_chunk d] \<and>
             content (processed_chunk d) = content d \<and>
             score (processed_chunk d) = Some (case score d of None \<Rightarrow> 0.7 | Some s \<Rightarrow> s)"
proof -
  from assms obtain d where d: "find (\<lambda>d. nkey d = nkey c) cs = Some d"
    by (cases "find (\<lambda>d. nkey d = nkey c) cs") (auto simp: find_None_iff)
  then have "filter (\<lambda>p. nkey p = nkey c) (process_chunks cs) = [processed_chunk d]"
    by (rule process_chunks_first)
  moreover have "score (processed_chunk d) = Some (case score d of None \<Rightarrow> 0.7 | Some s \<Rightarrow> s)"
    by (simp add: processed_chunk_def get_score_def)
  ultimately show ?thesis using d by simp
qed

theorem process_chunks_keeps_first_occurrence_witness:
  "chunk_A2 \<in> set [chunk_A, chunk_B, chunk_A2] \<and>
   filter (\<lambda>p. nkey p = ''hi there'') (process_chunks [chunk_A, chunk_B, chunk_A2]) =
     [processed_chunk chunk_A] \<and>
   score (processed_chunk chunk_A) = Some 0.7"
proof -
  have mem: "chunk_A2 \<in> set [chunk_A, chunk_B, chunk_A2]" by simp
  have "find (\<lambda>d. nkey d = nkey chunk_A2) [chunk_A, chunk_B, chunk_A2] = Some chunk_A"
    by (simp add: nkey_examples)
  with process_chunks_keeps_first_occurrence [OF mem]
  have "filter (\<lambda>p. nkey p = nkey chunk_A2) (process_chunks [chunk_A, chunk_B, chunk_A2]) =
          [processed_chunk chunk_A]"
    by auto
  moreover have "score (processed_chunk chunk_A) = Some 0.7"
    by (simp add: processed_chunk_def get_score_def chunk_A_def)
  ultimately show ?thesis by (simp add: nkey_examples)
qed

text \<open>
  C8. Whatever the input list, the output is in descending order of score, and for each
  score the output chunks with that score are, in the same order, those of the surviving
  chunks (the input without the later duplicates, which is a subsequence of the input).
\<close>

theorem process_chunks_sorted_descending_stable:
  "sorted_wrt (\<lambda>a b. get_score b \<le> get_score a) (process_chunks cs) \<and>
   (\<forall>v. filter (\<lambda>p. get_score p = v) (process_chunks cs) =
        filter (\<lambda>p. get_score p = v) (map processed_chunk (first_seen {} cs))) \<and>
   subseq (first_seen {} cs) cs"
  by (simp add: process_chunks_desc process_chunks_ties first_seen_subseq)

text \<open>
  C10. Processing the output of the Evidence Assembler again changes nothing: every chunk of
  the output carries a score and is its own processed form, the normalized contents of the
  output are pairwise distinct, and the output is sorted. Normalizing a normalized string
  changes nothing either.
\<close>

theorem process_chunks_idempotent:
  "process_chunks (process_chunks cs) = process_chunks cs \<and>
   list_all (\<lambda>p. score p = Some (get_score p)) (process_chunks cs) \<and>
   distinct (map nkey (process_chunks cs)) \<and>
   sorted_wrt (\<lambda>a b. get_score b \<le> get_score a) (process_chunks cs) \<and>
   normalize_content (normalize_content s) = normalize_content s"
proof -
  have "list_all (\<lambda>p. score p = Some (get_score p)) (process_chunks cs)"
    unfolding list_all_iff
  proof
    fix p assume "p \<in> set (process_chunks cs)"
    then have "processed_chunk p = p" by (rule process_chunks_fixed)
    then have "score (processed_chunk p) = score p" by simp
    then show "score p = Some (get_score p)"
      by (simp add: processed_chunk_def)
  qed
  then show ?thesis
    by (simp add: process_chunks_idem process_chunks_distinct process_chunks_desc
        normalize_content_idem)
qed

section \<open>Properties of the Response Synthesizer\<close>

subsection \<open>Citations\<close>

lemma foldl_snoc_map: "foldl (\<lambda>acc x. acc @ [f x]) acc0 xs = acc0 @ map f xs"
  by (induction xs arbitrary: acc0) simp_all

lemma create_citations_eq:
  "create_citations ss cs = map summary_citation ss @ map chunk_citation cs"
  by (simp add: create_citations_def create_chunk_citations_def foldl_snoc_map)

lemma generate_response_comprehensive:
  assumes "sr_summaries sr = Some ss" "ss \<noteq> []" "sr_chunks sr = Some cs"
    and "ainvoke e (ComprehensivePrompt q (create_comprehensive_context ss cs)) = Inr text"
  shows "answer (fst (generate_response e q sr md)) = text"
    and "citations (fst (generate_response e q sr md)) = create_citations ss cs"
    and "confidence (fst (generate_response e q sr md)) =
           calculate_confidence (create_citations ss cs) ss"
    and "snd (generate_response e q sr md) =
           [Completion (ComprehensivePrompt q (create_comprehensive_context ss cs))]"
  using assms
  by (simp_all add: generate_response_def has_summaries_def generate_comprehensive_response_def)

text \<open>
  C9. The citation list is one citation for each summary, in order, followed by one for each
  chunk, in order, so its length is the number of summaries plus the number of chunks. A
  summary citation has confidence 0.9, the summary text as content (empty when the summary
  has none) and the document path \<^verbatim>\<open>summary\<close>; a chunk citation has the chunk's score as
  confidence (0.7 when it has none), the chunk's content and the chunk's component path
  (empty when the metadata has none). This is the list a successful comprehensive branch
  returns.
\<close>

theorem create_citations_one_per_source:
  "create_citations ss cs = map summary_citation ss @ map chunk_citation cs \<and>
   length (create_citations ss cs) = length ss + length cs \<and>
   cit_confidence (summary_citation s) = 0.9 \<and>
   cit_content (summary_citation s) = (case summary_text s of None \<Rightarrow> [] | Some t \<Rightarrow> t) \<and>
   document_path (summary_citation s) = MStr ''summary'' \<and>
   cit_confidence (chunk_citation c) = (case score c of None \<Rightarrow> 0.7 | Some x \<Rightarrow> x) \<and>
   cit_content (chunk_citation c) = content c \<and>
   document_path (chunk_citation c) =
     (case (case metadata c of None \<Rightarrow> Map.empty | Some m \<Rightarrow> m) ''component_path'' of
        None \<Rightarrow> MStr [] | Some p \<Rightarrow> p) \<and>
   (sr_summaries sr = Some ss \<and> ss \<noteq> [] \<and> sr_chunks sr = Some cs \<and>
    ainvoke e (ComprehensivePrompt q (create_comprehensive_context ss cs)) = Inr text \<longrightarrow>
    citations (fst (generate_response e q sr md)) =
      map summary_citation ss @ map chunk_citation cs)"
  by (simp add: create_citations_eq [symmetric] generate_response_comprehensive)
     (simp add: create_citations_eq summary_citation_def chunk_citation_def get_score_def
       get_metadata_def)

theorem create_citations_one_per_source_witness:
  "citations (fst (generate_response env_ok ''q''
      \<lparr>sr_chunks = Some [chunk_C, chunk_A], sr_summaries = Some [summary_S], sr_metadata = None\<rparr>
      None)) =
   [\<lparr>cit_content = ''Repairs'', document_path = MStr ''summary'', cit_metadata = Map.empty,
      cit_confidence = 0.9\<rparr>,
    \<lparr>cit_content = ''repairs come first'', document_path = MStr ''r1_doc'',
      cit_metadata = [''component_path'' \<mapsto> MStr ''r1_doc''], cit_confidence = 0.8\<rparr>,
    \<lparr>cit_content = ''Hi  There'', document_path = MStr [], cit_metadata = Map.empty,
      cit_confidence = 0.7\<rparr>]"
proof -
  have "ainvoke env_ok (ComprehensivePrompt ''q''
          (create_comprehensive_context [summary_S] [chunk_C, chunk_A])) = Inr ''An answer''"
    by (simp add: env_ok_def)
  with create_citations_one_per_source [of "[summary_S]" "[chunk_C, chunk_A]" summary_S chunk_C
      "\<lparr>sr_chunks = Some [chunk_C, chunk_A], sr_summaries = Some [summary_S], sr_metadata = None\<rparr>"
      env_ok "''q''" "''An answer''" None]
  have "citations (fst (generate_response env_ok ''q''
          \<lparr>sr_chunks = Some [chunk_C, chunk_A], sr_summaries = Some [summary_S],
            sr_metadata = None\<rparr> None)) =
        map summary_citation [summary_S] @ map chunk_citation [chunk_C, chunk_A]"
    by simp
  then show ?thesis
    by (simp add: summary_citation_def chunk_citation_def summary_S_def chunk_C_def chunk_A_def
        get_score_def get_metadata_def)
qed

subsection \<open>Confidence\<close>

lemma calculate_chunk_confidence_eq:
  "calculate_chunk_confidence cits = spec_chunks_only_confidence cits"
  by (simp add: calculate_chunk_confidence_def spec_chunks_only_confidence_def mean_def)

lemma calculate_confidence_eq:
  "cits \<noteq> [] \<Longrightarrow> calculate_confidence cits ss = spec_comprehensive_confidence cits ss"
  by (simp add: calculate_confidence_def spec_comprehensive_confidence_def spec_components_def
      mean_def)

lemma create_citations_nonempty: "ss \<noteq> [] \<Longrightarrow> create_citations ss cs \<noteq> []"
  by (simp add: create_citations_eq)

text \<open>
  C4. The chunks-only confidence is the mean of all citation confidences capped at 0.95, and
  0.0 for no citations. In the comprehensive branch, where at least one summary is present
  and the citations are those of the summaries and the chunks, the confidence is the mean
  of the component list (0.9, and the mean of all citation confidences) capped at 0.95, that
  is the smaller of 0.95 and half of 0.9 plus the mean of the citation confidences; the same
  holds of \<^verbatim>\<open>_calculate_confidence\<close> for any citation list that is not empty.
\<close>

theorem confidence_aggregation:
  "calculate_chunk_confidence cits = spec_chunks_only_confidence cits \<and>
   (ss \<noteq> [] \<longrightarrow>
      calculate_confidence (create_citations ss cs) ss =
        spec_comprehensive_confidence (create_citations ss cs) ss \<and>
      calculate_confidence (create_citations ss cs) ss =
        min 0.95 ((0.9 + mean (map cit_confidence (create_citations ss cs))) / 2)) \<and>
   (cits \<noteq> [] \<longrightarrow> calculate_confidence cits ss = spec_comprehensive_confidence cits ss)"
proof -
  have "calculate_confidence (create_citations ss cs) ss =
          min 0.95 ((0.9 + mean (map cit_confidence (create_citations ss cs))) / 2)"
    if "ss \<noteq> []"
    using that create_citations_nonempty [OF that, of cs]
    by (simp add: calculate_confidence_def mean_def)
  then show ?thesis
    by (simp add: calculate_chunk_confidence_eq calculate_confidence_eq create_citations_nonempty)
qed

theorem confidence_aggregation_witness:
  "calculate_chunk_confidence (create_chunk_citations [chunk_C, chunk_A]) = 0.75 \<and>
   calculate_confidence (create_citations [summary_S] [chunk_C, chunk_A]) [summary_S] = 0.85"
proof -
  have cits: "map cit_confidence (create_citations [summary_S] [chunk_C, chunk_A]) = [0.9, 0.8, 0.7]"
    "map cit_confidence (create_chunk_citations [chunk_C, chunk_A]) = [0.8, 0.7]"
    "create_chunk_citations [chunk_C, chunk_A] \<noteq> []"
    by (simp_all add: create_citations_eq create_chunk_citations_def summary_citation_def
        chunk_citation_def get_score_def chunk_C_def chunk_A_def)
  have ne: "[summary_S] \<noteq> []" by simp
  from confidence_aggregation
    [of "create_chunk_citations [chunk_C, chunk_A]" "[summary_S]" "[chunk_C, chunk_A]"]
  have "calculate_chunk_confidence (create_chunk_citations [chunk_C, chunk_A]) =
          spec_chunks_only_confidence (create_chunk_citations [chunk_C, chunk_A])"
    and "calculate_confidence (create_citations [summary_S] [chunk_C, chunk_A]) [summary_S] =
          min 0.95 ((0.9 + mean (map cit_confidence
            (create_citations [summary_S] [chunk_C, chunk_A]))) / 2)"
    using ne by simp_all
  then show ?thesis
    by (simp add: cits spec_chunks_only_confidence_def mean_def)
qed

lemma mean_nonneg: "\<forall>x \<in> set xs. 0 \<le> x \<Longrightarrow> 0 \<le> sum_list xs / real (length xs)"
  by (simp add: sum_list_nonneg)

lemma sum_list_pos_real: "xs \<noteq> [] \<Longrightarrow> \<forall>x \<in> set xs. (0::real) < x \<Longrightarrow> 0 < sum_list xs"
proof (induction xs)
  case Nil
  then show ?case by simp
next
  case (Cons x xs)
  then have "0 < x" and "0 \<le> sum_list xs"
    by (simp_all add: sum_list_nonneg less_imp_le)
  then show ?case by simp
qed

lemma mean_pos:
  "xs \<noteq> [] \<Longrightarrow> \<forall>x \<in> set xs. (0::real) < x \<Longrightarrow> 0 < sum_list xs / real (length xs)"
  by (simp add: sum_list_pos_real)

lemma min_cap: "min 0.95 x \<le> (0.95::real)"
  by (rule min.cobounded1)

lemma calculate_chunk_confidence_upper: "calculate_chunk_confidence cits \<le> 0.95"
  unfolding calculate_chunk_confidence_def Let_def
  by (cases "cits = []") (simp, simp only: if_False min_cap)

lemma calculate_confidence_upper: "calculate_confidence cits ss \<le> 0.95"
  unfolding calculate_confidence_def Let_def
  by (cases "cits = []") (simp, simp only: if_False min_cap)

lemma calculate_chunk_confidence_lower:
  "\<forall>c \<in> set cits. 0 \<le> cit_confidence c \<Longrightarrow> 0 \<le> calculate_chunk_confidence cits"
  using mean_nonneg [of "map cit_confidence cits"]
  by (simp add: calculate_chunk_confidence_def)

lemma calculate_chunk_confidence_pos:
  "cits \<noteq> [] \<Longrightarrow> \<forall>c \<in> set cits. 0 < cit_confidence c \<Longrightarrow> 0 < calculate_chunk_confidence cits"
  using mean_pos [of "map cit_confidence cits"]
  by (simp add: calculate_chunk_confidence_def)

lemma calculate_confidence_pos:
  assumes "cits \<noteq> []" "ss \<noteq> []" "\<forall>c \<in> set cits. 0 \<le> cit_confidence c"
  shows "0 < calculate_confidence cits ss"
proof -
  have "0 \<le> sum_list (map cit_confidence cits) / real (length cits)"
    using mean_nonneg [of "map cit_confidence cits"] assms(3) by simp
  then show ?thesis
    using assms(1,2) by (simp add: calculate_confidence_def)
qed

lemma create_citations_confidences:
  "\<forall>c \<in> set cs. 0 \<le> get_score c \<Longrightarrow>
   \<forall>c \<in> set (create_citations ss cs). 0 \<le> cit_confidence c"
  by (auto simp: create_citations_eq summary_citation_def chunk_citation_def)

lemma generate_response_chunks_only:
  assumes "sr_chunks sr = Some cs" "cs \<noteq> []" "has_summaries sr = False"
    and "ainvoke e (ChunksPrompt q (format_chunks_for_prompt cs)) = Inr text"
  shows "citations (fst (generate_response e q sr md)) = create_chunk_citations cs"
    and "confidence (fst (generate_response e q sr md)) =
           calculate_chunk_confidence (create_chunk_citations cs)"
  using assms
  by (simp_all add: generate_response_def has_chunks_def generate_chunks_response_def)

lemma generate_response_cases:
  obtains
    (no_content) "generate_response e q sr md = (create_no_content_response, [])"
  | (failed) err calls where
      "generate_response e q sr md = (create_error_response e (err_str err), calls)"
  | (comprehensive) ss cs where "sr_summaries sr = Some ss" "ss \<noteq> []" "sr_chunks sr = Some cs"
      "citations (fst (generate_response e q sr md)) = create_citations ss cs"
      "confidence (fst (generate_response e q sr md)) =
         calculate_confidence (create_citations ss cs) ss"
  | (chunks_only) cs where "sr_chunks sr = Some cs" "cs \<noteq> []"
      "citations (fst (generate_response e q sr md)) = create_chunk_citations cs"
      "confidence (fst (generate_response e q sr md)) =
         calculate_chunk_confidence (create_chunk_citations cs)"
proof (cases "has_summaries sr")
  case True
  then obtain ss where ss: "sr_summaries sr = Some ss" "ss \<noteq> []"
    by (auto simp: has_summaries_def split: option.splits)
  show ?thesis
  proof (cases "sr_chunks sr")
    case None
    with True ss have "generate_response e q sr md =
        (create_error_response e (err_str (KeyError ''chunks'')), [])"
      by (simp add: generate_response_def generate_comprehensive_response_def)
    then show ?thesis by (rule failed)
  next
    case (Some cs)
    show ?thesis
    proof (cases "ainvoke e (ComprehensivePrompt q (create_comprehensive_context ss cs))")
      case (Inl err)
      with True ss Some have "generate_response e q sr md =
          (create_error_response e (err_str err),
           [Completion (ComprehensivePrompt q (create_comprehensive_context ss cs))])"
        by (simp add: generate_response_def generate_comprehensive_response_def)
      then show ?thesis by (rule failed)
    next
      case (Inr reply)
      from generate_response_comprehensive(2,3) [OF ss Some Inr] ss Some
      show ?thesis by (rule comprehensive [rotated 3])
    qed
  qed
next
  case False
  show ?thesis
  proof (cases "has_chunks sr")
    case nc: False
    with False have "generate_response e q sr md = (create_no_content_response, [])"
      by (simp add: generate_response_def)
    then show ?thesis by (rule no_content)
  next
    case True
    then obtain cs where cs: "sr_chunks sr = Some cs" "cs \<noteq> []"
      by (auto simp: has_chunks_def split: option.splits)
    show ?thesis
    proof (cases "ainvoke e (ChunksPrompt q (format_chunks_for_prompt cs))")
      case (Inl err)
      with True False cs have "generate_response e q sr md =
          (create_error_response e (err_str err),
           [Completion (ChunksPrompt q (format_chunks_for_prompt cs))])"
        by (simp add: generate_response_def generate_chunks_response_def)
      then show ?thesis by (rule failed)
    next
      case (Inr reply)
      from cs generate_response_chunks_only [OF cs _ Inr] False
      show ?thesis by (intro chunks_only) simp_all
    qed
  qed
qed

lemma chunk_citation_confidences:
  "map cit_confidence (create_chunk_citations cs) = map get_score cs"
  by (simp add: create_chunk_citations_def chunk_citation_def)

text \<open>
  C3, as the code has it. The confidence of every response of the synthesizer is at most
  0.95, and it is 0.0 whenever the citation list is empty. It is at least 0.0 when no chunk
  has a negative score, and when every chunk has a positive score (0.7 standing for a missing
  one) it is 0.0 exactly when the citation list is empty.
\<close>

theorem confidence_range:
  "confidence (fst (generate_response e q sr md)) \<le> 0.95 \<and>
   (citations (fst (generate_response e q sr md)) = [] \<longrightarrow>
      confidence (fst (generate_response e q sr md)) = 0) \<and>
   ((\<forall>c \<in> set (chunks_of sr). 0 \<le> get_score c) \<longrightarrow>
      0 \<le> confidence (fst (generate_response e q sr md))) \<and>
   ((\<forall>c \<in> set (chunks_of sr). 0 < get_score c) \<longrightarrow>
      (confidence (fst (generate_response e q sr md)) = 0) =
      (citations (fst (generate_response e q sr md)) = []))"
proof (cases e q sr md rule: generate_response_cases)
  case no_content
  then show ?thesis by (simp add: create_no_content_response_def)
next
  case (failed err calls)
  then show ?thesis by (simp add: create_error_response_def)
next
  case (comprehensive ss cs)
  have ne: "create_citations ss cs \<noteq> []"
    using comprehensive(2) by (rule create_citations_nonempty)
  have pos: "0 < calculate_confidence (create_citations ss cs) ss"
    if "\<forall>c \<in> set cs. 0 \<le> get_score c"
    using ne comprehensive(2) create_citations_confidences [OF that]
    by (rule calculate_confidence_pos)
  have "chunks_of sr = cs"
    using comprehensive(3) by (simp add: chunks_of_def)
  with ne pos comprehensive(4,5) calculate_confidence_upper [of "create_citations ss cs" ss]
  show ?thesis by (auto simp: less_imp_le)
next
  case (chunks_only cs)
  have ne: "create_chunk_citations cs \<noteq> []"
    using chunks_only(2) by (simp add: create_chunk_citations_def)
  have nonneg: "0 \<le> calculate_chunk_confidence (create_chunk_citations cs)"
    if "\<forall>c \<in> set cs. 0 \<le> get_score c"
    using that by (intro calculate_chunk_confidence_lower)
      (simp add: create_chunk_citations_def chunk_citation_def)
  have pos: "0 < calculate_chunk_confidence (create_chunk_citations cs)"
    if "\<forall>c \<in> set cs. 0 < get_score c"
    using ne that by (intro calculate_chunk_confidence_pos)
      (simp_all add: create_chunk_citations_def chunk_citation_def)
  have "chunks_of sr = cs"
    using chunks_only(1) by (simp add: chunks_of_def)
  with ne nonneg pos chunks_only(3,4)
    calculate_chunk_confidence_upper [of "create_chunk_citations cs"]
  show ?thesis by auto
qed

theorem confidence_range_witness:
  "list_all (\<lambda>c. 0 < get_score c) (chunks_of
      \<lparr>sr_chunks = Some [chunk_C, chunk_A], sr_summaries = Some [summary_S], sr_metadata = None\<rparr>) \<and>
   0 < confidence (fst (generate_response env_ok ''q''
      \<lparr>sr_chunks = Some [chunk_C, chunk_A], sr_summaries = Some [summary_S], sr_metadata = None\<rparr>
      None)) \<and>
   confidence (fst (generate_response env_ok ''q''
      \<lparr>sr_chunks = Some [chunk_C, chunk_A], sr_summaries = Some [summary_S], sr_metadata = None\<rparr>
      None)) \<le> 0.95 \<and>
   citations (fst (generate_response env_ok ''q''
      \<lparr>sr_chunks = Some [chunk_C, chunk_A], sr_summaries = Some [summary_S], sr_metadata = None\<rparr>
      None)) \<noteq> []"
proof -
  let ?sr = "\<lparr>sr_chunks = Some [chunk_C, chunk_A], sr_summaries = Some [summary_S],
    sr_metadata = None\<rparr>"
  have scores: "\<forall>c \<in> set (chunks_of ?sr). 0 < get_score c"
    by (simp add: chunks_of_def get_score_def chunk_C_def chunk_A_def)
  have cits: "citations (fst (generate_response env_ok ''q'' ?sr None)) \<noteq> []"
    by (simp add: generate_response_def has_summaries_def generate_comprehensive_response_def
        env_ok_def create_citations_eq)
  from confidence_range [of env_ok "''q''" ?sr None] scores cits
  have "confidence (fst (generate_response env_ok ''q'' ?sr None)) \<le> 0.95"
    and "0 \<le> confidence (fst (generate_response env_ok ''q'' ?sr None))"
    and "confidence (fst (generate_response env_ok ''q'' ?sr None)) \<noteq> 0"
    by (simp_all add: less_imp_le)
  with scores cits show ?thesis
    by (simp add: list_all_iff)
qed

text \<open>
  The claim as stated fails: a single chunk of score 0 and no summary give confidence 0.0
  with one citation, and a negative score gives a negative confidence.
\<close>

theorem confidence_range_counterexample:
  "confidence (fst (generate_response env_ok ''q'' sr_zero_score None)) = 0 \<and>
   length (citations (fst (generate_response env_ok ''q'' sr_zero_score None))) = 1 \<and>
   confidence (fst (generate_response env_ok ''q'' sr_negative_score None)) = - 1"
  by (simp add: generate_response_def has_summaries_def has_chunks_def
      generate_chunks_response_def env_ok_def sr_zero_score_def sr_negative_score_def
      calculate_chunk_confidence_def create_chunk_citations_def chunk_citation_def
      get_score_def chunk_C_def)

subsection \<open>No evidence\<close>

text \<open>
  C6. When the search result has no summaries and no chunks (the key missing or the list
  empty), the synthesizer returns the fixed answer for no content, with confidence 0.0 and
  no citations, and issues no call at all, so no completion call; the pipeline returns the
  same answer, confidence and citations and issues no call beyond those of the search.
\<close>

theorem no_evidence_no_content:
  assumes "sr_chunks sr = None \<or> sr_chunks sr = Some []"
    and "sr_summaries sr = None \<or> sr_summaries sr = Some []"
  shows "generate_response e q sr md = (create_no_content_response, []) \<and>
         answer (fst (generate_response e q sr md)) =
           ''I apologize, but I couldn't find relevant information to answer your question accurately.'' \<and>
         confidence (fst (generate_response e q sr md)) = 0 \<and>
         citations (fst (generate_response e q sr md)) = [] \<and>
         (search e q = (Inr sr, calls) \<longrightarrow>
            answer (fst (process_query e q md)) = answer create_no_content_response \<and>
            confidence (fst (process_query e q md)) = 0 \<and>
            citations (fst (process_query e q md)) = [] \<and>
            snd (process_query e q md) = calls)"
proof -
  from assms have "has_chunks sr = False" "has_summaries sr = False"
    by (auto simp: has_chunks_def has_summaries_def)
  then have g: "generate_response e q sr md = (create_no_content_response, [])"
    by (simp add: generate_response_def)
  then show ?thesis
    by (simp add: process_query_def) (simp add: create_no_content_response_def)
qed

theorem no_evidence_no_content_witness:
  "generate_response env_ok ''q''
     \<lparr>sr_chunks = Some [], sr_summaries = None, sr_metadata = None\<rparr> None =
   (create_no_content_response, [])"
  using no_evidence_no_content
    [of "\<lparr>sr_chunks = Some [], sr_summaries = None, sr_metadata = None\<rparr>" env_ok "''q''" None]
  by simp

end
